theory Spec2Isabelle
  imports Complex_Main
begin

section \<open>Conventions of the embedding\<close>

text \<open>
  The program is \<^verbatim>\<open>src/main.py\<close>, a polling trading agent. A Python \<^verbatim>\<open>float\<close> is
  modelled as the \<^typ>\<open>real\<close> number it denotes, a Python \<^verbatim>\<open>int\<close> as an \<^typ>\<open>int\<close>, a
  string as a \<^typ>\<open>string\<close>. The float products, quotients and differences of the
  trade path (prices, profit multiplier, amounts, quantities) are rounded to the
  nearest double, as the section on floating point defines; the sum of the four
  risk weights and the age of a cache entry are taken as exact reals.
  The program is a single cooperative task, so every
  \<^verbatim>\<open>async\<close> function is modelled as a sequential function that passes the state it
  mutates (the cache, the credential, the table of positions) and returns it.
  The answers of the outside world (HTTP services, the chain, the clock) are
  arguments of the functions that ask for them.
\<close>

subsection \<open>Exceptions\<close>

text \<open>
  \<^verbatim>\<open>ClientError\<close> is the transport error the \<^verbatim>\<open>@retry\<close> decorators retry on,
  \<^verbatim>\<open>RetryError\<close> is what the decorator raises once its three attempts are used up,
  \<^verbatim>\<open>ZeroDivisionError\<close> is Python's float division by zero, \<^verbatim>\<open>OtherError\<close> stands
  for any other exception. A call that may raise returns \<open>exc + 'a\<close>, \<open>Inl\<close> the
  exception.
\<close>

datatype exc = ClientError | RetryError | ZeroDivisionError | OtherError

subsection \<open>Settings\<close>

text \<open>The fields of \<^verbatim>\<open>class Settings\<close> that the modelled code reads.\<close>

record Settings =
  VOLUME_THRESHOLD :: real
  LIQUIDITY_THRESHOLD :: real
  TX_COUNT_THRESHOLD :: int
  TREND_SCORE_MIN :: real
  SCAM_RISK_MAX :: real
  PROFIT_MULTIPLIER_MIN :: real
  PROFIT_MULTIPLIER_MAX :: real
  SELL_PERCENTAGE :: real
  BUY_AMOUNT_SOL :: real
  CACHE_EXPIRY :: int

text \<open>The defaults written in \<^verbatim>\<open>class Settings\<close>.\<close>

definition default_settings :: Settings where
  "default_settings =
     \<lparr> VOLUME_THRESHOLD = 1000, LIQUIDITY_THRESHOLD = 500, TX_COUNT_THRESHOLD = 100,
       TREND_SCORE_MIN = 0.5, SCAM_RISK_MAX = 0.5,
       PROFIT_MULTIPLIER_MIN = 2.0, PROFIT_MULTIPLIER_MAX = 3.0,
       SELL_PERCENTAGE = 0.5, BUY_AMOUNT_SOL = 1, CACHE_EXPIRY = 300 \<rparr>"

section \<open>Floating point\<close>

text \<open>
  Python's \<^verbatim>\<open>float\<close> is the IEEE 754 binary64 format: every arithmetic operation
  returns the exact result rounded to the nearest number with a 53-bit significand,
  a tie going to the even significand. \<open>fl x\<close> is that rounding of the real \<open>x\<close>, for
  the normal range of the format (overflow, subnormal numbers, infinities and NaN are
  not modelled). \<open>expo n x\<close> finds the binary exponent \<open>e\<close> of a positive \<open>x\<close>, with
  \<open>2 ^ e \<le> x < 2 ^ (e + 1)\<close>, in at most \<open>n\<close> halvings or doublings; the exponents of
  the format lie within 1100 of 0. \<open>fl_at e x\<close> rounds \<open>x\<close> to a multiple of
  \<open>2 ^ (e - 52)\<close>.
\<close>

definition pow2 :: "int \<Rightarrow> real" where
  "pow2 e = (if 0 \<le> e then 2 ^ nat e else 1 / 2 ^ nat (- e))"

fun expo :: "nat \<Rightarrow> real \<Rightarrow> int" where
  "expo 0 x = 0"
| "expo (Suc n) x =
     (if 2 \<le> x then expo n (x / 2) + 1 else if x < 1 then expo n (x * 2) - 1 else 0)"

definition round_even :: "real \<Rightarrow> int" where
  "round_even x =
     (let f = \<lfloor>x\<rfloor>; r = x - real_of_int f
      in if r < 1 / 2 then f else if 1 / 2 < r then f + 1 else if even f then f else f + 1)"

definition fl_at :: "int \<Rightarrow> real \<Rightarrow> real" where
  "fl_at e x = real_of_int (round_even (x / pow2 (e - 52))) * pow2 (e - 52)"

definition fl :: "real \<Rightarrow> real" where
  "fl x =
     (if x = 0 then 0
      else if 0 < x then fl_at (expo 1100 x) x
      else - fl_at (expo 1100 (- x)) (- x))"

section \<open>In-memory cache\<close>

text \<open>
  \<^verbatim>\<open>cache: Dict[str, Dict[str, Any]]\<close>, each entry \<^verbatim>\<open>{'data': ..., 'timestamp': ...}\<close>.
  The stored data is any Python value, \<^verbatim>\<open>None\<close> included, so an entry holds an
  \<open>'a option\<close> whose \<open>None\<close> is Python's \<^verbatim>\<open>None\<close>; \<^verbatim>\<open>get_cached_data\<close> returns the
  stored data or \<^verbatim>\<open>None\<close>. The clock \<^verbatim>\<open>time.time()\<close> is the argument \<open>now\<close>.
\<close>

record 'a cache_entry =
  data :: "'a option"
  timestamp :: real

type_synonym 'a cache = "string \<rightharpoonup> 'a cache_entry"

definition get_cached_data :: "Settings \<Rightarrow> real \<Rightarrow> 'a cache \<Rightarrow> string \<Rightarrow> 'a option \<times> 'a cache" where
  "get_cached_data st now cache key =
     (case cache key of
        None \<Rightarrow> (None, cache)
      | Some e \<Rightarrow>
          if now - timestamp e < real_of_int (CACHE_EXPIRY st) then (data e, cache)
          else (None, cache))"

definition set_cached_data :: "real \<Rightarrow> 'a cache \<Rightarrow> string \<Rightarrow> 'a option \<Rightarrow> 'a cache" where
  "set_cached_data now cache key d = cache(key \<mapsto> \<lparr> data = d, timestamp = now \<rparr>)"

section \<open>Token state and risk analysis\<close>

text \<open>\<^verbatim>\<open>class TokenAnalytics(BaseModel)\<close>: a validated analytics payload.\<close>

record TokenAnalytics =
  volume_24h :: real
  liquidity_a :: real
  tx_count_24h :: int
  sniper_activity_a :: real
  insider_trades_a :: int

text \<open>\<^verbatim>\<open>class TokenState\<close>, with the fields its constructor sets.\<close>

record TokenState =
  token_address :: string
  name :: string
  decimals :: int
  volume :: real
  liquidity :: real
  tx_count :: int
  trend_score :: real
  scam_risk :: real
  buy_price :: real
  holdings :: real
  sniper_activity :: real
  insider_trades :: int

definition TokenState_init :: "string \<Rightarrow> string \<Rightarrow> int \<Rightarrow> TokenState" where
  "TokenState_init addr nm dec =
     \<lparr> token_address = addr, name = nm, decimals = dec, volume = 0, liquidity = 0,
       tx_count = 0, trend_score = 0, scam_risk = 0, buy_price = 0, holdings = 0,
       sniper_activity = 0, insider_trades = 0 \<rparr>"

text \<open>
  \<^verbatim>\<open>update_analytics\<close> reads the five keys of the validated dictionary (the
  \<^verbatim>\<open>.get\<close> defaults are never used on a validated payload, which has every key).
\<close>

definition update_analytics :: "TokenAnalytics \<Rightarrow> TokenState \<Rightarrow> TokenState" where
  "update_analytics an ts =
     ts\<lparr> volume := volume_24h an, liquidity := liquidity_a an, tx_count := tx_count_24h an,
         sniper_activity := sniper_activity_a an, insider_trades := insider_trades_a an \<rparr>"

definition update_trend_score :: "real \<Rightarrow> TokenState \<Rightarrow> TokenState" where
  "update_trend_score s ts = ts\<lparr> trend_score := s \<rparr>"

text \<open>
  \<^verbatim>\<open>update_scam_risk\<close>: the dictionary \<^verbatim>\<open>risk_factors\<close> in its insertion order, each
  entry \<^verbatim>\<open>factor: (value, threshold, weight)\<close>, and the loop over it. \<^verbatim>\<open>/\<close> is Python's
  true division, so \<^verbatim>\<open>TX_COUNT_THRESHOLD / 2\<close> is a float.
\<close>

definition risk_factors :: "Settings \<Rightarrow> TokenState \<Rightarrow> (string \<times> real \<times> real \<times> real) list" where
  "risk_factors st ts =
     [ (''sniper_activity'', sniper_activity ts, 50, 0.3),
       (''insider_trades'', real_of_int (insider_trades ts), 10, 0.2),
       (''liquidity'', liquidity ts, LIQUIDITY_THRESHOLD st / 2, 0.4),
       (''tx_count'', real_of_int (tx_count ts), real_of_int (TX_COUNT_THRESHOLD st) / 2, 0.1) ]"

fun risk_step :: "real \<Rightarrow> string \<times> real \<times> real \<times> real \<Rightarrow> real" where
  "risk_step risk (factor, v, threshold, weight) =
     (if factor \<in> set [''sniper_activity'', ''insider_trades'']
      then (if v > threshold then risk + weight else risk)
      else (if v < threshold then risk + weight else risk))"

definition update_scam_risk :: "Settings \<Rightarrow> TokenState \<Rightarrow> TokenState" where
  "update_scam_risk st ts = ts\<lparr> scam_risk := foldl risk_step 0 (risk_factors st ts) \<rparr>"

definition update_holdings :: "real \<Rightarrow> real \<Rightarrow> TokenState \<Rightarrow> TokenState" where
  "update_holdings bp h ts = ts\<lparr> buy_price := bp, holdings := h \<rparr>"

section \<open>Swap routes, signing, submission, confirmation\<close>

text \<open>
  A swap route is the JSON answer of \<^verbatim>\<open>get_swap_route\<close>. \<open>NoRoute\<close> is a falsy answer
  (\<^verbatim>\<open>None\<close> or \<^verbatim>\<open>{}\<close>), \<open>NoData\<close> an answer without the key \<^verbatim>\<open>"data"\<close>,
  \<open>Data d\<close> an answer whose \<^verbatim>\<open>"data"\<close> is \<open>d\<close>: \<open>raw_tx d\<close> is the value under
  \<^verbatim>\<open>"raw_tx"\<close> (\<open>None\<close> when the key is absent) and \<open>out_amount d\<close> the integer under
  \<^verbatim>\<open>"out_amount"\<close> (\<open>None\<close> when the key is absent, where the code takes 0).
\<close>

record route_data =
  raw_tx :: "string option"
  out_amount :: "int option"

datatype route = NoRoute | NoData | Data route_data

text \<open>
  The outside world of one trade. \<open>swap_route\<close> is \<^verbatim>\<open>get_swap_route\<close> after its
  retries (arguments: input token, output token, amount in raw units). \<open>sign_tx\<close>
  stands for the four lines that decode \<^verbatim>\<open>raw_tx["swapTransaction"]\<close>, parse, sign and
  serialise it, any of which may raise. \<open>submit\<close> is \<^verbatim>\<open>submit_transaction\<close> after its
  retries, \<open>Some h\<close> when the answer holds \<^verbatim>\<open>["data"]["hash"]\<close> and \<open>None\<close> when the
  answer is falsy or lacks it. \<open>confirm\<close> is \<^verbatim>\<open>confirm_transaction\<close>, which catches
  every exception itself and returns a boolean.
\<close>

record world =
  swap_route :: "string \<Rightarrow> string \<Rightarrow> int \<Rightarrow> exc + route"
  sign_tx :: "string \<Rightarrow> exc + string"
  submit :: "string \<Rightarrow> exc + string option"
  confirm :: "string \<Rightarrow> bool"

definition SOL_ADDRESS :: string where
  "SOL_ADDRESS = ''So11111111111111111111111111111111111111112''"

text \<open>Python's \<^verbatim>\<open>int(x)\<close> on a float truncates towards zero.\<close>

definition py_int :: "real \<Rightarrow> int" where
  "py_int x = (if 0 \<le> x then \<lfloor>x\<rfloor> else \<lceil>x\<rceil>)"

text \<open>
  \<^verbatim>\<open>10 ** d\<close> for an integer \<open>d\<close>: an \<^verbatim>\<open>int\<close> when \<open>d\<close> is not negative, a float when it
  is. \<open>pow10 d\<close> is its exact value and \<open>float_pow10 d\<close> the float it is or becomes
  as an operand of a float operation (for a negative \<open>d\<close> the float power is taken
  as correctly rounded).
\<close>

definition pow10 :: "int \<Rightarrow> real" where
  "pow10 d = (if 0 \<le> d then 10 ^ nat d else 1 / 10 ^ nat (- d))"

definition float_pow10 :: "int \<Rightarrow> real" where
  "float_pow10 d = fl (pow10 d)"

text \<open>
  \<^verbatim>\<open>n / (10 ** d)\<close> for an \<^verbatim>\<open>int\<close> \<open>n\<close>: the true division of two \<^verbatim>\<open>int\<close>s is the exact
  quotient rounded once; with a negative \<open>d\<close> it is a division of two floats.
\<close>

definition int_over_pow10 :: "int \<Rightarrow> int \<Rightarrow> real" where
  "int_over_pow10 n d =
     (if 0 \<le> d then fl (real_of_int n / 10 ^ nat d)
      else fl (fl (real_of_int n) / float_pow10 d))"

text \<open>
  The amount of the price probe, \<^verbatim>\<open>int(0.001 * (10 ** decimals))\<close>, and of a sell,
  \<^verbatim>\<open>int(amount_to_sell * (10 ** decimals))\<close>, in raw units.
\<close>

definition probe_amount :: "int \<Rightarrow> int" where
  "probe_amount dec = py_int (fl (fl 0.001 * float_pow10 dec))"

definition raw_units :: "real \<Rightarrow> int \<Rightarrow> int" where
  "raw_units amount dec = py_int (fl (amount * float_pow10 dec))"

text \<open>\<^verbatim>\<open>route["data"].get("out_amount", 0)\<close>.\<close>

definition get_out_amount :: "route_data \<Rightarrow> int" where
  "get_out_amount d = (case out_amount d of None \<Rightarrow> 0 | Some n \<Rightarrow> n)"

section \<open>Position store\<close>

text \<open>
  The table \<^verbatim>\<open>tokens\<close>, keyed by its primary key \<^verbatim>\<open>token_address\<close>: a list of
  (address, row) pairs in row order. \<^verbatim>\<open>INSERT OR REPLACE\<close> deletes the row of the same
  key and adds the new row at the end.
\<close>

record position_row =
  row_name :: string
  row_volume :: real
  row_liquidity :: real
  row_tx_count :: int
  row_trend_score :: real
  row_scam_risk :: real
  row_buy_price :: real
  row_holdings :: real
  row_decimals :: int
  row_timestamp :: string

type_synonym db = "(string \<times> position_row) list"

definition insert_or_replace :: "string \<Rightarrow> position_row \<Rightarrow> db \<Rightarrow> db" where
  "insert_or_replace k r tbl = filter (\<lambda>(k', _). k' \<noteq> k) tbl @ [(k, r)]"

text \<open>\<^verbatim>\<open>UPDATE tokens SET holdings = ? WHERE token_address = ?\<close>.\<close>

definition set_holdings :: "string \<Rightarrow> real \<Rightarrow> db \<Rightarrow> db" where
  "set_holdings k h tbl =
     map (\<lambda>(k', r). if k' = k then (k', r\<lparr> row_holdings := h \<rparr>) else (k', r)) tbl"

text \<open>
  \<^verbatim>\<open>SELECT token_address, name, buy_price, holdings, decimals FROM tokens WHERE holdings > 0\<close>.
\<close>

definition select_held :: "db \<Rightarrow> (string \<times> string \<times> real \<times> real \<times> int) list" where
  "select_held tbl =
     map (\<lambda>(k, r). (k, row_name r, row_buy_price r, row_holdings r, row_decimals r))
       (filter (\<lambda>(k, r). row_holdings r > 0) tbl)"

definition holdings_of :: "db \<Rightarrow> string \<Rightarrow> real option" where
  "holdings_of tbl k = map_option row_holdings (map_of tbl k)"

text \<open>
  \<^verbatim>\<open>save_token_to_db\<close>. Every exception inside it is caught and logged: \<open>ok\<close> says
  whether the write went through, and a failed write leaves the table as it was.
  \<open>now\<close> is \<^verbatim>\<open>datetime.now().isoformat()\<close>.
\<close>

definition save_token_to_db :: "bool \<Rightarrow> string \<Rightarrow> TokenState \<Rightarrow> db \<Rightarrow> db" where
  "save_token_to_db ok now ts tbl =
     (if ok then
        insert_or_replace (token_address ts)
          \<lparr> row_name = name ts, row_volume = volume ts, row_liquidity = liquidity ts,
            row_tx_count = tx_count ts, row_trend_score = trend_score ts,
            row_scam_risk = scam_risk ts, row_buy_price = buy_price ts,
            row_holdings = holdings ts, row_decimals = decimals ts,
            row_timestamp = now \<rparr> tbl
      else tbl)"

section \<open>Trader\<close>

text \<open>
  \<^verbatim>\<open>Trader.execute_buy\<close>. The whole body is inside \<^verbatim>\<open>try ... except Exception\<close>, so an
  exception of any call gives \<^verbatim>\<open>False\<close>, the \<^verbatim>\<open>ZeroDivisionError\<close> of the price's
  division included. The result is the returned boolean, the token state (mutated by
  \<^verbatim>\<open>update_holdings\<close>) and the table.
\<close>

definition execute_buy ::
  "world \<Rightarrow> bool \<Rightarrow> string \<Rightarrow> TokenState \<Rightarrow> real \<Rightarrow> db \<Rightarrow> bool \<times> TokenState \<times> db" where
  "execute_buy w ok now ts amount_in_sol tbl =
     (let amount_in_units = raw_units amount_in_sol 9 in
      case swap_route w SOL_ADDRESS (token_address ts) amount_in_units of
        Inl e \<Rightarrow> (False, ts, tbl)
      | Inr NoRoute \<Rightarrow> (False, ts, tbl)
      | Inr NoData \<Rightarrow> (False, ts, tbl)
      | Inr (Data d) \<Rightarrow>
          (case raw_tx d of
             None \<Rightarrow> (False, ts, tbl)
           | Some raw \<Rightarrow>
               (case sign_tx w raw of
                  Inl e \<Rightarrow> (False, ts, tbl)
                | Inr signed_tx \<Rightarrow>
                    (case submit w signed_tx of
                       Inl e \<Rightarrow> (False, ts, tbl)
                     | Inr None \<Rightarrow> (False, ts, tbl)
                     | Inr (Some tx_hash) \<Rightarrow>
                         if confirm w tx_hash then
                           (let out = get_out_amount d in
                            if out = 0 then (False, ts, tbl)
                            else if int_over_pow10 out (decimals ts) = 0 then (False, ts, tbl)
                            else
                              (let bp = fl (amount_in_sol / int_over_pow10 out (decimals ts));
                                   h = int_over_pow10 out (decimals ts);
                                   ts' = update_holdings bp h ts
                               in (True, ts', save_token_to_db ok now ts' tbl)))
                         else (False, ts, tbl)))))"

text \<open>
  \<^verbatim>\<open>Trader.execute_sell\<close>: the same steps in the other direction. It changes no
  state and returns whether the transaction was confirmed.
\<close>

definition execute_sell :: "world \<Rightarrow> TokenState \<Rightarrow> real \<Rightarrow> bool" where
  "execute_sell w ts amount_to_sell =
     (let amount_units = raw_units amount_to_sell (decimals ts) in
      case swap_route w (token_address ts) SOL_ADDRESS amount_units of
        Inl e \<Rightarrow> False
      | Inr NoRoute \<Rightarrow> False
      | Inr NoData \<Rightarrow> False
      | Inr (Data d) \<Rightarrow>
          (case raw_tx d of
             None \<Rightarrow> False
           | Some raw \<Rightarrow>
               (case sign_tx w raw of
                  Inl e \<Rightarrow> False
                | Inr signed_tx \<Rightarrow>
                    (case submit w signed_tx of
                       Inl e \<Rightarrow> False
                     | Inr None \<Rightarrow> False
                     | Inr (Some tx_hash) \<Rightarrow> confirm w tx_hash))))"

section \<open>Reputation check and its credential\<close>

text \<open>
  The global \<^verbatim>\<open>API_KEY_RUGCHECK\<close> is an optional string; \<^verbatim>\<open>not API_KEY_RUGCHECK\<close> holds
  for \<^verbatim>\<open>None\<close> and for the empty string.
\<close>

definition falsy :: "string option \<Rightarrow> bool" where
  "falsy k = (k = None \<or> k = Some [])"

text \<open>\<^verbatim>\<open>str.upper\<close> on the ASCII letters, which is all a comparison with \<^verbatim>\<open>"GOOD"\<close> needs.\<close>

definition upper_char :: "char \<Rightarrow> char" where
  "upper_char c =
     (case map_of (zip ''abcdefghijklmnopqrstuvwxyz'' ''ABCDEFGHIJKLMNOPQRSTUVWXYZ'') c of
        None \<Rightarrow> c
      | Some u \<Rightarrow> u)"

definition upper :: "string \<Rightarrow> string" where
  "upper s = map upper_char s"

text \<open>
  One run of the body of \<^verbatim>\<open>validate_token_rugcheck\<close>. \<open>login\<close> is what
  \<^verbatim>\<open>get_rugcheck_api_token\<close> would return if called (it catches every exception and
  returns the empty string on failure). \<open>get\<close> is the answer of the GET request made
  with a bearer key: an exception, or the value under \<^verbatim>\<open>"status"\<close> (\<open>None\<close> when the
  key is absent). The result is the new value of the global and the outcome.
\<close>

definition validate_attempt ::
  "string \<Rightarrow> (string \<Rightarrow> exc + string option) \<Rightarrow> string option \<Rightarrow> string option \<times> (exc + bool)" where
  "validate_attempt login get key =
     (let key' = (if falsy key then Some login else key) in
      case key' of
        None \<Rightarrow> (key', Inr False)
      | Some k \<Rightarrow>
          if k = [] then (key', Inr False)
          else
            (case get k of
               Inl e \<Rightarrow> (key', Inl e)
             | Inr status \<Rightarrow>
                 (key', Inr (upper (case status of None \<Rightarrow> ''UNKNOWN'' | Some t \<Rightarrow> t)
                               = ''GOOD''))))"

text \<open>
  The decorator \<^verbatim>\<open>@retry(retry_if_exception_type(ClientError), stop_after_attempt(3))\<close>
  around it: the body runs again after a \<^verbatim>\<open>ClientError\<close>, at most three times in all,
  and \<^verbatim>\<open>RetryError\<close> is raised when the third run fails too; any other exception
  leaves at once. \<open>get i\<close> is the answer to the request of the \<open>i\<close>-th run.
\<close>

fun retry_validate ::
  "nat \<Rightarrow> nat \<Rightarrow> string \<Rightarrow> (nat \<Rightarrow> string \<Rightarrow> exc + string option) \<Rightarrow> string option
     \<Rightarrow> string option \<times> (exc + bool)" where
  "retry_validate 0 i login get key = (key, Inl RetryError)"
| "retry_validate (Suc n) i login get key =
     (case validate_attempt login (get i) key of
        (key', Inl ClientError) \<Rightarrow> retry_validate n (Suc i) login get key'
      | r \<Rightarrow> r)"

definition validate_token_rugcheck ::
  "string \<Rightarrow> (nat \<Rightarrow> string \<Rightarrow> exc + string option) \<Rightarrow> string option
     \<Rightarrow> string option \<times> (exc + bool)" where
  "validate_token_rugcheck login get key = retry_validate 3 1 login get key"

section \<open>Token analyzer\<close>

text \<open>
  The outside world of one candidate token in the buy phase: the answer of
  \<^verbatim>\<open>fetch_token_analytics\<close> after its retries (\<open>Inr None\<close> is the empty dictionary it
  returns for an invalid payload), the decimals \<^verbatim>\<open>get_token_decimals\<close> returns (it
  never raises), the answers of the reputation service, the world of the buy
  trade, whether the store's write goes through, and the clock.
\<close>

record token_env =
  fetch_token_analytics :: "exc + TokenAnalytics option"
  get_token_decimals :: int
  rugcheck_login :: string
  rugcheck_get :: "nat \<Rightarrow> string \<Rightarrow> exc + string option"
  buy_world :: world
  store_ok :: bool
  clock :: string

text \<open>
  \<^verbatim>\<open>TokenAnalyzer.analyze_token\<close>: the new credential, and an exception, \<^verbatim>\<open>None\<close> or the
  token state.
\<close>

definition analyze_token ::
  "Settings \<Rightarrow> token_env \<Rightarrow> string \<Rightarrow> string \<Rightarrow> string option
     \<Rightarrow> string option \<times> (exc + TokenState option)" where
  "analyze_token st env addr nm key =
     (case fetch_token_analytics env of
        Inl e \<Rightarrow> (key, Inl e)
      | Inr None \<Rightarrow> (key, Inr None)
      | Inr (Some analytics) \<Rightarrow>
          (let token_state =
                 update_scam_risk st
                   (update_analytics analytics
                      (TokenState_init addr nm (get_token_decimals env)))
           in case validate_token_rugcheck (rugcheck_login env) (rugcheck_get env) key of
                (key', Inl e) \<Rightarrow> (key', Inl e)
              | (key', Inr True) \<Rightarrow> (key', Inr (Some token_state))
              | (key', Inr False) \<Rightarrow> (key', Inr None)))"

section \<open>The trading loop\<close>

text \<open>
  The state one iteration works on: the credential, the table of positions, and a
  log of the calls of the two executors (\<open>calls\<close> is not a variable of the program: it
  records, in order, each call of \<^verbatim>\<open>execute_buy\<close> with the token's address and each
  call of \<^verbatim>\<open>execute_sell\<close> with the address and the amount to sell).
\<close>

datatype event = BuyAttempt string | SellAttempt string real

record state =
  API_KEY_RUGCHECK :: "string option"
  tokens_table :: db
  calls :: "event list"

text \<open>A discovered token: \<^verbatim>\<open>token.get("address")\<close> and \<^verbatim>\<open>token.get("name", "Unknown")\<close>.\<close>

record token =
  address :: string
  token_name :: "string option"

definition buy_gates :: "Settings \<Rightarrow> TokenState \<Rightarrow> bool" where
  "buy_gates st ts =
     (volume ts \<ge> VOLUME_THRESHOLD st \<and>
      liquidity ts \<ge> LIQUIDITY_THRESHOLD st \<and>
      tx_count ts \<ge> TX_COUNT_THRESHOLD st \<and>
      trend_score ts \<ge> TREND_SCORE_MIN st \<and>
      scam_risk ts < SCAM_RISK_MAX st)"

text \<open>
  The body of \<^verbatim>\<open>for token in tokens\<close>. The result is the new state and the exception
  that leaves the loop, if any (\<^verbatim>\<open>execute_buy\<close> raises none).
\<close>

definition buy_step ::
  "Settings \<Rightarrow> (string \<rightharpoonup> real) \<Rightarrow> token \<times> token_env \<Rightarrow> state \<Rightarrow> state \<times> exc option" where
  "buy_step st trends x s =
     (let tok = fst x; env = snd x;
          addr = address tok;
          nm = (case token_name tok of None \<Rightarrow> ''Unknown'' | Some n \<Rightarrow> n)
      in case analyze_token st env addr nm (API_KEY_RUGCHECK s) of
           (key', Inl e) \<Rightarrow> (s\<lparr> API_KEY_RUGCHECK := key' \<rparr>, Some e)
         | (key', Inr None) \<Rightarrow> (s\<lparr> API_KEY_RUGCHECK := key' \<rparr>, None)
         | (key', Inr (Some token_state)) \<Rightarrow>
             (let ts = token_state\<lparr> trend_score :=
                         (case trends addr of None \<Rightarrow> 0 | Some v \<Rightarrow> v) \<rparr>
              in if buy_gates st ts then
                   (let r = execute_buy (buy_world env) (store_ok env) (clock env) ts
                              (BUY_AMOUNT_SOL st) (tokens_table s)
                    in (s\<lparr> API_KEY_RUGCHECK := key', tokens_table := snd (snd r),
                           calls := calls s @ [BuyAttempt addr] \<rparr>, None))
                 else (s\<lparr> API_KEY_RUGCHECK := key' \<rparr>, None)))"

fun buy_phase ::
  "Settings \<Rightarrow> (string \<rightharpoonup> real) \<Rightarrow> (token \<times> token_env) list \<Rightarrow> state \<Rightarrow> state \<times> exc option" where
  "buy_phase st trends [] s = (s, None)"
| "buy_phase st trends (x # xs) s =
     (case buy_step st trends x s of
        (s', Some e) \<Rightarrow> (s', Some e)
      | (s', None) \<Rightarrow> buy_phase st trends xs s')"

text \<open>
  The outside world of one held position in the sell phase: the world of the price
  probe and the world of the sell trade.
\<close>

record sell_env =
  probe_world :: world
  sell_world :: world

text \<open>
  The body of \<^verbatim>\<open>for row in rows\<close>. The probe may raise (its retries used up) and the
  division by \<^verbatim>\<open>token_state.buy_price\<close> raises \<^verbatim>\<open>ZeroDivisionError\<close> when the cost basis
  is 0; both leave the loop. The value of \<^verbatim>\<open>execute_sell\<close> is not used by the loop.
  \<^verbatim>\<open>sol_received\<close>, \<^verbatim>\<open>current_price\<close>, \<^verbatim>\<open>profit_multiplier\<close>, \<^verbatim>\<open>amount_to_sell\<close> and the new
  quantity are floats, each the rounded result of its operation.
\<close>

fun sell_row ::
  "Settings \<Rightarrow> (string \<Rightarrow> sell_env) \<Rightarrow> string \<times> string \<times> real \<times> real \<times> int \<Rightarrow> state
     \<Rightarrow> state \<times> exc option" where
  "sell_row st envs (addr, nm, bp, h, dec) s =
     (let token_state = (TokenState_init addr nm dec)\<lparr> buy_price := bp, holdings := h \<rparr>
      in case swap_route (probe_world (envs addr)) addr SOL_ADDRESS (probe_amount dec) of
           Inl e \<Rightarrow> (s, Some e)
         | Inr NoRoute \<Rightarrow> (s, None)
         | Inr NoData \<Rightarrow> (s, None)
         | Inr (Data d) \<Rightarrow>
             (let sol_received = int_over_pow10 (get_out_amount d) 9 in
              if sol_received = 0 then (s, None)
              else
                (let current_price = fl (sol_received / fl 0.001) in
                 if buy_price token_state = 0 then (s, Some ZeroDivisionError)
                 else
                   (let profit_multiplier = fl (current_price / buy_price token_state) in
                    if profit_multiplier \<ge> PROFIT_MULTIPLIER_MAX st then
                      (let sold = execute_sell (sell_world (envs addr)) token_state
                                    (holdings token_state)
                       in (s\<lparr> tokens_table := set_holdings addr 0 (tokens_table s),
                              calls := calls s @ [SellAttempt addr (holdings token_state)] \<rparr>,
                           None))
                    else if profit_multiplier \<ge> PROFIT_MULTIPLIER_MIN st then
                      (let amount_to_sell = fl (holdings token_state * SELL_PERCENTAGE st);
                           sold = execute_sell (sell_world (envs addr)) token_state
                                    amount_to_sell
                       in (s\<lparr> tokens_table :=
                                set_holdings addr (fl (holdings token_state - amount_to_sell))
                                  (tokens_table s),
                              calls := calls s @ [SellAttempt addr amount_to_sell] \<rparr>,
                           None))
                    else (s, None)))))"

fun sell_rows ::
  "Settings \<Rightarrow> (string \<Rightarrow> sell_env) \<Rightarrow> (string \<times> string \<times> real \<times> real \<times> int) list \<Rightarrow> state
     \<Rightarrow> state \<times> exc option" where
  "sell_rows st envs [] s = (s, None)"
| "sell_rows st envs (row # rows) s =
     (case sell_row st envs row s of
        (s', Some e) \<Rightarrow> (s', Some e)
      | (s', None) \<Rightarrow> sell_rows st envs rows s')"

text \<open>
  The sell phase: one connection, the rows selected once, the loop, and
  \<^verbatim>\<open>conn.commit()\<close> after the loop. An exception inside the loop leaves the
  \<^verbatim>\<open>async with\<close> block before the commit: the connection is closed and the updates
  made through it are not stored, so the table is the one the phase started with.
\<close>

definition sell_phase :: "Settings \<Rightarrow> (string \<Rightarrow> sell_env) \<Rightarrow> state \<Rightarrow> state \<times> exc option" where
  "sell_phase st envs s =
     (case sell_rows st envs (select_held (tokens_table s)) s of
        (s', None) \<Rightarrow> (s', None)
      | (s', Some e) \<Rightarrow> (s'\<lparr> tokens_table := tokens_table s \<rparr>, Some e))"

text \<open>
  One pass of the \<^verbatim>\<open>while\<close> loop's \<^verbatim>\<open>try\<close> block: discovery, buy phase, sell phase. The
  exception, if any, is the one the loop's \<^verbatim>\<open>except Exception\<close> logs.
\<close>

record iteration_env =
  fetch_new_tokens :: "exc + (token \<times> token_env) list"
  fetch_market_trends :: "exc + (string \<rightharpoonup> real)"
  sell_envs :: "string \<Rightarrow> sell_env"

definition iteration :: "Settings \<Rightarrow> iteration_env \<Rightarrow> state \<Rightarrow> state \<times> exc option" where
  "iteration st env s =
     (case fetch_new_tokens env of
        Inl e \<Rightarrow> (s, Some e)
      | Inr tokens \<Rightarrow>
          (case fetch_market_trends env of
             Inl e \<Rightarrow> (s, Some e)
           | Inr trends \<Rightarrow>
               (case buy_phase st trends tokens s of
                  (s', Some e) \<Rightarrow> (s', Some e)
                | (s', None) \<Rightarrow> sell_phase st (sell_envs env) s')))"

text \<open>
  The start of \<^verbatim>\<open>monitor_and_trade\<close>: with no credential one is fetched, and the
  function returns before the loop when that fails. The result is the credential
  and whether the loop is entered.
\<close>

definition startup :: "string \<Rightarrow> string option \<Rightarrow> string option \<times> bool" where
  "startup login key =
     (if falsy key then (Some login, \<not> falsy (Some login)) else (key, True))"

text \<open>The amounts of the sell calls logged for one address, in order.\<close>

fun sells_of :: "string \<Rightarrow> event list \<Rightarrow> real list" where
  "sells_of a [] = []"
| "sells_of a (BuyAttempt b # es) = sells_of a es"
| "sells_of a (SellAttempt b x # es) = (if b = a then x # sells_of a es else sells_of a es)"

section \<open>Scenarios\<close>

text \<open>
  Concrete inputs on which the theorems below are exercised. The second scenario of
  the specification's testable properties: analytics with sniper activity 60, a
  trend score of 0.8, the default thresholds.
\<close>

definition an_spec :: TokenAnalytics where
  "an_spec = \<lparr> volume_24h = 5000, liquidity_a = 1000, tx_count_24h = 200,
               sniper_activity_a = 60, insider_trades_a = 0 \<rparr>"

definition ts_spec :: TokenState where
  "ts_spec = update_analytics an_spec (TokenState_init ''T'' ''Tok'' 6)"

text \<open>
  Worlds of a trade: one where every step succeeds and the route reports an output
  of 3000000 raw units, one where the confirmed route reports an output of 0, one
  where the routing service cannot be reached.
\<close>

definition w_ok :: world where
  "w_ok = \<lparr> swap_route = (\<lambda>i o' n. Inr (Data \<lparr> raw_tx = Some ''tx'', out_amount = Some 3000000 \<rparr>)),
            sign_tx = (\<lambda>r. Inr ''signed''),
            submit = (\<lambda>t. Inr (Some ''hash'')),
            confirm = (\<lambda>h. True) \<rparr>"

definition w_zero :: world where
  "w_zero = \<lparr> swap_route = (\<lambda>i o' n. Inr (Data \<lparr> raw_tx = Some ''tx'', out_amount = Some 0 \<rparr>)),
              sign_tx = (\<lambda>r. Inr ''signed''),
              submit = (\<lambda>t. Inr (Some ''hash'')),
              confirm = (\<lambda>h. True) \<rparr>"

definition w_down :: world where
  "w_down = \<lparr> swap_route = (\<lambda>i o' n. Inl RetryError),
              sign_tx = (\<lambda>r. Inr ''signed''),
              submit = (\<lambda>t. Inr (Some ''hash'')),
              confirm = (\<lambda>h. True) \<rparr>"

text \<open>
  A probe world: 0.001 token of \<^verbatim>\<open>A\<close> is quoted at 3000000 lamports (a price of 3),
  of \<^verbatim>\<open>B\<close> at 2000000 (a price of 2), of any other token at 1000000 (a price of 1).
\<close>

definition w_probe :: world where
  "w_probe =
     \<lparr> swap_route = (\<lambda>i o' n. Inr (Data \<lparr> raw_tx = None,
          out_amount = Some (if i = ''A'' then 3000000 else if i = ''B'' then 2000000 else 1000000) \<rparr>)),
       sign_tx = (\<lambda>r. Inr ''signed''),
       submit = (\<lambda>t. Inr (Some ''hash'')),
       confirm = (\<lambda>h. True) \<rparr>"

definition env_spec :: token_env where
  "env_spec = \<lparr> fetch_token_analytics = Inr (Some an_spec), get_token_decimals = 6,
                rugcheck_login = ''fresh'', rugcheck_get = (\<lambda>i k. Inr (Some ''Good'')),
                buy_world = w_ok, store_ok = True, clock = ''2024-01-01T00:00:00'' \<rparr>"

definition tok_T :: token where
  "tok_T = \<lparr> address = ''T'', token_name = Some ''Tok'' \<rparr>"

definition trends_spec :: "string \<rightharpoonup> real" where
  "trends_spec = [''T'' \<mapsto> 0.8]"

text \<open>A position of 10 tokens bought at 1 SOL each, and states that hold such positions.\<close>

definition row_held :: position_row where
  "row_held = \<lparr> row_name = ''Held'', row_volume = 5000, row_liquidity = 1000, row_tx_count = 200,
                row_trend_score = 0.8, row_scam_risk = 0, row_buy_price = 1, row_holdings = 10,
                row_decimals = 6, row_timestamp = ''2024-01-01T00:00:00'' \<rparr>"

definition ts_held :: "string \<Rightarrow> TokenState" where
  "ts_held a = (TokenState_init a ''Held'' 6)\<lparr> buy_price := 1, holdings := 10 \<rparr>"

definition s_empty :: state where
  "s_empty = \<lparr> API_KEY_RUGCHECK = Some ''key'', tokens_table = [], calls = [] \<rparr>"

definition s_T :: state where
  "s_T = \<lparr> API_KEY_RUGCHECK = Some ''key'', tokens_table = [(''T'', row_held)], calls = [] \<rparr>"

definition s_held :: state where
  "s_held = \<lparr> API_KEY_RUGCHECK = Some ''key'',
              tokens_table = [(''A'', row_held), (''B'', row_held), (''C'', row_held)],
              calls = [] \<rparr>"

definition envs_ok :: "string \<Rightarrow> sell_env" where
  "envs_ok a = \<lparr> probe_world = w_probe, sell_world = w_ok \<rparr>"

text \<open>The probe of \<^verbatim>\<open>B\<close> fails after its retries; everything else succeeds.\<close>

definition envs_abort :: "string \<Rightarrow> sell_env" where
  "envs_abort a =
     (if a = ''B'' then \<lparr> probe_world = w_down, sell_world = w_ok \<rparr>
      else \<lparr> probe_world = w_probe, sell_world = w_ok \<rparr>)"

text \<open>Every probe succeeds and no sell trade gets a route.\<close>

definition envs_sell_fails :: "string \<Rightarrow> sell_env" where
  "envs_sell_fails a = \<lparr> probe_world = w_probe, sell_world = w_down \<rparr>"

text \<open>
  A position of 10 tokens bought at 0.1 SOL each (the float nearest to 0.1), whose
  probe is quoted at 300000 lamports: a price of 0.3 in exact arithmetic.
\<close>

definition w_probe_tenth :: world where
  "w_probe_tenth =
     \<lparr> swap_route = (\<lambda>i o' n. Inr (Data \<lparr> raw_tx = None, out_amount = Some 300000 \<rparr>)),
       sign_tx = (\<lambda>r. Inr ''signed''),
       submit = (\<lambda>t. Inr (Some ''hash'')),
       confirm = (\<lambda>h. True) \<rparr>"

definition s_tenth :: state where
  "s_tenth = \<lparr> API_KEY_RUGCHECK = Some ''key'',
               tokens_table = [(''X'', row_held\<lparr> row_buy_price := fl 0.1 \<rparr>)],
               calls = [] \<rparr>"

definition envs_tenth :: "string \<Rightarrow> sell_env" where
  "envs_tenth a = \<lparr> probe_world = w_probe_tenth, sell_world = w_ok \<rparr>"

text \<open>A reputation service that rejects every key but \<^verbatim>\<open>fresh\<close>.\<close>

definition rug_rejects_stale :: "nat \<Rightarrow> string \<Rightarrow> exc + string option" where
  "rug_rejects_stale i k = (if k = ''fresh'' then Inr (Some ''GOOD'') else Inl ClientError)"

section \<open>Facts about the model\<close>

subsection \<open>The rounding\<close>

text \<open>
  The exponent search finds the binade of its argument, and the rounding moves a
  number of the normal range by at most half a unit in the last place: a relative
  error of at most \<open>2 ^ - 53\<close>.
\<close>

lemma pow2_powr: "pow2 e = 2 powr (real_of_int e)"
  by (simp add: pow2_def powr_realpow [symmetric] powr_minus divide_inverse)

lemma pow2_pos: "0 < pow2 e"
  by (simp add: pow2_powr)

lemma pow2_Suc: "pow2 (e + 1) = 2 * pow2 e"
  by (simp add: pow2_powr powr_add)

lemma pow2_pred: "pow2 (e - 1) = pow2 e / 2"
  by (simp add: pow2_powr powr_diff)

lemma expo_bounds:
  "pow2 (- int n) \<le> x \<Longrightarrow> x < pow2 (int n + 1) \<Longrightarrow>
     pow2 (expo n x) \<le> x \<and> x < pow2 (expo n x + 1)"
proof (induction n arbitrary: x)
  case 0
  then show ?case by (simp add: pow2_def)
next
  case (Suc n)
  have "- int (Suc n) = - int n - 1"
    by simp
  then have lo: "pow2 (- int (Suc n)) = pow2 (- int n) / 2"
    by (simp only: pow2_pred)
  have "int (Suc n) + 1 = (int n + 1) + 1"
    by simp
  then have hi: "pow2 (int (Suc n) + 1) = 2 * pow2 (int n + 1)"
    by (simp only: pow2_Suc)
  have small: "pow2 (- int n) \<le> 1"
    by (cases n) (simp_all add: pow2_def divide_le_eq)
  have big: "2 \<le> pow2 (int n + 1)"
    using pow2_Suc [of "int n"] by (simp add: pow2_def)
  show ?case
  proof (cases "2 \<le> x")
    case True
    have "pow2 (- int n) \<le> x / 2"
      using small True by simp
    moreover have "x / 2 < pow2 (int n + 1)"
      using Suc.prems(2) hi by simp
    ultimately have "pow2 (expo n (x / 2)) \<le> x / 2 \<and> x / 2 < pow2 (expo n (x / 2) + 1)"
      by (rule Suc.IH)
    then show ?thesis
      using True pow2_Suc [of "expo n (x / 2)"] pow2_Suc [of "expo n (x / 2) + 1"]
      by (simp add: algebra_simps)
  next
    case False
    show ?thesis
    proof (cases "x < 1")
      case True
      have "pow2 (- int n) \<le> x * 2"
        using Suc.prems(1) lo by simp
      moreover have "x * 2 < pow2 (int n + 1)"
        using True big by simp
      ultimately have "pow2 (expo n (x * 2)) \<le> x * 2 \<and> x * 2 < pow2 (expo n (x * 2) + 1)"
        by (rule Suc.IH)
      then show ?thesis
        using True False pow2_pred [of "expo n (x * 2)"] pow2_pred [of "expo n (x * 2) + 1"]
        by (simp add: algebra_simps)
    next
      case nlt: False
      then show ?thesis
        using False by (simp add: pow2_def)
    qed
  qed
qed

lemma fl_minus: "fl (- x) = - fl x"
  by (simp add: fl_def)

lemma round_even_error: "\<bar>real_of_int (round_even y) - y\<bar> \<le> 1 / 2"
proof -
  have "real_of_int \<lfloor>y\<rfloor> \<le> y" and "y < real_of_int \<lfloor>y\<rfloor> + 1"
    by linarith+
  then show ?thesis
    by (auto simp: round_even_def Let_def)
qed

lemma fl_at_error: "\<bar>fl_at e x - x\<bar> \<le> pow2 (e - 52) / 2"
proof -
  let ?u = "pow2 (e - 52)"
  have u: "0 < ?u" by (rule pow2_pos)
  have "fl_at e x - x = (real_of_int (round_even (x / ?u)) - x / ?u) * ?u"
    using u by (simp add: fl_at_def algebra_simps)
  then have "\<bar>fl_at e x - x\<bar> = \<bar>real_of_int (round_even (x / ?u)) - x / ?u\<bar> * ?u"
    using u by (simp add: abs_mult)
  also have "\<dots> \<le> 1 / 2 * ?u"
    using round_even_error [of "x / ?u"] u by (intro mult_right_mono) simp_all
  finally show ?thesis by simp
qed

lemma fl_at_relative:
  assumes "pow2 (- 1100) \<le> x" and "x < pow2 1101"
  shows "\<bar>fl_at (expo 1100 x) x - x\<bar> \<le> x / 2 ^ 53"
proof -
  let ?e = "expo 1100 x"
  have b: "pow2 ?e \<le> x \<and> x < pow2 (?e + 1)"
    using expo_bounds [of 1100 x] assms by simp
  have "pow2 (?e - 52) / 2 = pow2 ?e / 2 ^ 53"
    by (simp add: pow2_powr powr_diff)
  also have "\<dots> \<le> x / 2 ^ 53"
    using b by (simp add: divide_right_mono)
  finally show ?thesis
    using fl_at_error [of ?e x] by linarith
qed

lemma fl_relative_error:
  assumes "pow2 (- 1100) \<le> \<bar>x\<bar>" and "\<bar>x\<bar> < pow2 1101"
  shows "\<bar>fl x - x\<bar> \<le> \<bar>x\<bar> / 2 ^ 53"
proof (cases "0 < x")
  case True
  then show ?thesis
    using fl_at_relative [of x] assms by (simp add: fl_def)
next
  case False
  have "x \<noteq> 0"
    using assms(1) pow2_pos [of "- 1100"] by auto
  then have neg: "x < 0" using False by simp
  then have "\<bar>fl_at (expo 1100 (- x)) (- x) - (- x)\<bar> \<le> (- x) / 2 ^ 53"
    using fl_at_relative [of "- x"] assms by simp
  then show ?thesis
    using neg by (simp add: fl_def abs_minus_commute)
qed

subsection \<open>Evaluating the rounding\<close>

lemma expo_numeral:
  "expo (numeral k) x =
     (if 2 \<le> x then expo (pred_numeral k) (x / 2) + 1
      else if x < 1 then expo (pred_numeral k) (x * 2) - 1 else 0)"
  by (simp add: numeral_eq_Suc)

lemma fl_at_literal:
  "fl_at 0 x = real_of_int (round_even (x / pow2 (- 52))) * pow2 (- 52)"
  "fl_at 1 x = real_of_int (round_even (x / pow2 (- 51))) * pow2 (- 51)"
  "fl_at (- 1) x = real_of_int (round_even (x / pow2 (- 53))) * pow2 (- 53)"
  "fl_at (numeral k) x =
     real_of_int (round_even (x / pow2 (numeral k - 52))) * pow2 (numeral k - 52)"
  "fl_at (- numeral k) x =
     real_of_int (round_even (x / pow2 (- numeral k - 52))) * pow2 (- numeral k - 52)"
  by (simp_all add: fl_at_def)

lemma fl_zero: "fl 0 = 0"
  by (simp add: fl_def)

lemmas fl_eval =
  fl_def expo_numeral fl_at_literal pow2_def round_even_def Let_def
  pow10_def float_pow10_def int_over_pow10_def probe_amount_def raw_units_def py_int_def

text \<open>The literals of the program, and the inputs of the scenarios, as floats.\<close>

lemma fl_literals:
  "fl 0.001 = 1152921504606847 / 2 ^ 60"
  "fl 0.1 = 3602879701896397 / 2 ^ 55"
  "fl (1 / 3) = 6004799503160661 / 2 ^ 54"
  "fl 0.5 = 0.5" "fl 1 = 1" "fl 3 = 3" "fl 5 = 5" "fl 10 = 10"
  by (simp_all add: fl_eval)

lemma probe_amount_6: "probe_amount 6 = 1000"
  by (simp add: fl_eval)

lemma raw_units_examples:
  "raw_units 1 9 = 1000000000" "raw_units 10 6 = 10000000" "raw_units 5 6 = 5000000"
  by (simp_all add: fl_eval)

lemma int_over_pow10_examples:
  "int_over_pow10 3000000 6 = 3"
  "int_over_pow10 0 9 = 0"
  "int_over_pow10 3000000 9 = 3458764513820541 / 2 ^ 60"
  by (simp_all add: fl_eval)

lemmas scenario_defs =
  an_spec_def ts_spec_def w_ok_def w_zero_def w_down_def w_probe_def env_spec_def tok_T_def
  trends_spec_def row_held_def ts_held_def s_empty_def s_T_def s_held_def envs_ok_def
  envs_abort_def envs_sell_fails_def default_settings_def w_probe_tenth_def s_tenth_def
  envs_tenth_def rug_rejects_stale_def

lemmas eval_defs =
  get_out_amount_def SOL_ADDRESS_def TokenState_init_def
  update_analytics_def update_scam_risk_def risk_factors_def update_holdings_def
  holdings_of_def set_holdings_def select_held_def insert_or_replace_def
  save_token_to_db_def execute_sell_def execute_buy_def sell_phase_def fl_eval

subsection \<open>The table keeps one row per address\<close>

lemma keys_set_holdings: "map fst (set_holdings a v tbl) = map fst tbl"
  by (induction tbl) (auto simp: set_holdings_def)

lemma distinct_insert_or_replace:
  "distinct (map fst tbl) \<Longrightarrow> distinct (map fst (insert_or_replace k r tbl))"
  by (induction tbl) (auto simp: insert_or_replace_def)

lemma map_of_insert_or_replace: "map_of (insert_or_replace k r tbl) k = Some r"
  by (induction tbl) (auto simp: insert_or_replace_def)

lemma filter_insert_or_replace:
  "filter (\<lambda>x. fst x = k) (insert_or_replace k r tbl) = [(k, r)]"
  by (induction tbl) (auto simp: insert_or_replace_def)

lemma distinct_save_token_to_db:
  "distinct (map fst tbl) \<Longrightarrow> distinct (map fst (save_token_to_db ok now ts tbl))"
  by (simp add: save_token_to_db_def distinct_insert_or_replace)

lemma holdings_of_set_holdings:
  "holdings_of (set_holdings a v tbl) b =
     (if b = a then map_option (\<lambda>_. v) (holdings_of tbl a) else holdings_of tbl b)"
  by (induction tbl) (auto simp: holdings_of_def set_holdings_def)

subsection \<open>The buy executor\<close>

lemma execute_buy_False:
  "execute_buy w ok now ts amount_in_sol tbl = (False, ts', tbl') \<Longrightarrow> ts' = ts \<and> tbl' = tbl"
  by (auto simp: execute_buy_def Let_def split: sum.splits route.splits option.splits if_splits)

lemma execute_buy_True:
  assumes "execute_buy w ok now ts amount_in_sol tbl = (True, ts', tbl')"
  shows "\<exists>d raw signed_tx tx_hash.
           swap_route w SOL_ADDRESS (token_address ts) (raw_units amount_in_sol 9) = Inr (Data d) \<and>
           raw_tx d = Some raw \<and> sign_tx w raw = Inr signed_tx \<and>
           submit w signed_tx = Inr (Some tx_hash) \<and> confirm w tx_hash \<and> get_out_amount d \<noteq> 0"
  using assms
  by (auto simp: execute_buy_def Let_def split: sum.splits route.splits option.splits if_splits)

lemma distinct_execute_buy:
  "distinct (map fst tbl) \<Longrightarrow>
     distinct (map fst (snd (snd (execute_buy w ok now ts amount_in_sol tbl))))"
  by (auto simp: execute_buy_def Let_def distinct_save_token_to_db
      split: sum.splits route.splits option.splits)

lemma distinct_buy_step:
  "distinct (map fst (tokens_table s)) \<Longrightarrow>
     distinct (map fst (tokens_table (fst (buy_step st trends x s))))"
  by (auto simp: buy_step_def Let_def distinct_execute_buy
      split: prod.splits sum.splits option.splits)

lemma distinct_buy_phase:
  "distinct (map fst (tokens_table s)) \<Longrightarrow>
     distinct (map fst (tokens_table (fst (buy_phase st trends xs s))))"
proof (induction xs arbitrary: s)
  case Nil
  then show ?case by simp
next
  case (Cons x xs)
  obtain s1 e1 where step: "buy_step st trends x s = (s1, e1)"
    by (cases "buy_step st trends x s")
  have d1: "distinct (map fst (tokens_table s1))"
    using distinct_buy_step [OF Cons.prems, of st trends x] step by simp
  show ?case
  proof (cases e1)
    case None
    then show ?thesis using step Cons.IH [OF d1] by simp
  next
    case (Some e)
    then show ?thesis using step d1 by simp
  qed
qed

subsection \<open>The credential\<close>

lemma validate_attempt_key:
  "fst (validate_attempt login g key) = (if falsy key then Some login else key)"
  by (simp add: validate_attempt_def Let_def split: option.splits sum.splits)

lemma validate_attempt_raises:
  "validate_attempt login g key = (key', Inl e) \<Longrightarrow> \<not> falsy key'"
  by (auto simp: validate_attempt_def Let_def falsy_def split: option.splits sum.splits if_splits)

lemma retry_validate_key:
  "fst (retry_validate n i login get key) =
     (if n = 0 then key else if falsy key then Some login else key)"
proof (induction n arbitrary: i key)
  case 0
  show ?case by simp
next
  case (Suc n)
  obtain key' r where va: "validate_attempt login (get i) key = (key', r)"
    by (cases "validate_attempt login (get i) key")
  have k': "key' = (if falsy key then Some login else key)"
    using validate_attempt_key [of login "get i" key] va by simp
  show ?case
  proof (cases "r = Inl ClientError")
    case True
    then have nf: "\<not> falsy key'"
      using va validate_attempt_raises by blast
    have "fst (retry_validate (Suc n) i login get key) =
            fst (retry_validate n (Suc i) login get key')"
      using va True by simp
    also have "\<dots> = key'"
      using Suc [of "Suc i" key'] nf by simp
    finally show ?thesis using k' by simp
  next
    case False
    then have "retry_validate (Suc n) i login get key = (key', r)"
      using va by (simp split: sum.splits exc.splits)
    then show ?thesis using k' by simp
  qed
qed

lemma startup_enters_with_credential:
  "startup login key = (key', True) \<Longrightarrow> \<not> falsy key'"
  by (auto simp: startup_def split: if_splits)

subsection \<open>The sell loop\<close>

lemma sells_of_append: "sells_of a (xs @ ys) = sells_of a xs @ sells_of a ys"
  by (induction a xs rule: sells_of.induct) auto

lemma sell_row_other:
  assumes "sell_row st envs (a, nm, bp, h, dec) s = (s', x)" and "b \<noteq> a"
  shows "holdings_of (tokens_table s') b = holdings_of (tokens_table s) b \<and>
         sells_of b (calls s') = sells_of b (calls s)"
  using assms
  by (auto simp: Let_def holdings_of_set_holdings sells_of_append
      split: sum.splits route.splits if_splits)

lemma sell_row_keys:
  "map fst (tokens_table (fst (sell_row st envs row s))) = map fst (tokens_table s)"
  by (cases row) (auto simp: Let_def keys_set_holdings split: sum.splits route.splits)

lemma sell_rows_other:
  assumes "sell_rows st envs rows s = (s', x)" and "b \<notin> fst ` set rows"
  shows "holdings_of (tokens_table s') b = holdings_of (tokens_table s) b \<and>
         sells_of b (calls s') = sells_of b (calls s)"
  using assms
proof (induction rows arbitrary: s)
  case Nil
  then show ?case by simp
next
  case (Cons row rows)
  obtain a nm bp h dec where row: "row = (a, nm, bp, h, dec)"
    by (cases row)
  obtain s1 x1 where step: "sell_row st envs (a, nm, bp, h, dec) s = (s1, x1)"
    by (cases "sell_row st envs (a, nm, bp, h, dec) s")
  have ne: "b \<noteq> a"
    using Cons.prems(2) row by auto
  have same1: "holdings_of (tokens_table s1) b = holdings_of (tokens_table s) b \<and>
               sells_of b (calls s1) = sells_of b (calls s)"
    using sell_row_other [OF step ne] .
  show ?case
  proof (cases x1)
    case None
    then have "sell_rows st envs rows s1 = (s', x)"
      using Cons.prems(1) row step by simp
    moreover have "b \<notin> fst ` set rows"
      using Cons.prems(2) by auto
    ultimately show ?thesis
      using Cons.IH same1 by simp
  next
    case (Some e)
    then have "s' = s1"
      using Cons.prems(1) row step by simp
    then show ?thesis
      using same1 by simp
  qed
qed

lemma sell_rows_keys:
  "map fst (tokens_table (fst (sell_rows st envs rows s))) = map fst (tokens_table s)"
proof (induction rows arbitrary: s)
  case Nil
  show ?case by simp
next
  case (Cons row rows)
  obtain s1 x1 where step: "sell_row st envs row s = (s1, x1)"
    by (cases "sell_row st envs row s")
  have k1: "map fst (tokens_table s1) = map fst (tokens_table s)"
    using sell_row_keys [of st envs row s] step by simp
  show ?case
    using step k1 Cons.IH [of s1] by (cases x1) simp_all
qed

lemma sell_phase_keys:
  "map fst (tokens_table (fst (sell_phase st envs s))) = map fst (tokens_table s)"
proof -
  obtain s1 x1 where run: "sell_rows st envs (select_held (tokens_table s)) s = (s1, x1)"
    by (cases "sell_rows st envs (select_held (tokens_table s)) s")
  have "map fst (tokens_table s1) = map fst (tokens_table s)"
    using sell_rows_keys [of st envs "select_held (tokens_table s)" s] run by simp
  then show ?thesis
    using run by (cases x1) (simp_all add: sell_phase_def)
qed

lemma distinct_iteration:
  assumes "distinct (map fst (tokens_table s))"
  shows "distinct (map fst (tokens_table (fst (iteration st env s))))"
proof (cases "fetch_new_tokens env")
  case (Inl e)
  then show ?thesis using assms by (simp add: iteration_def)
next
  case (Inr tokens)
  note toks = this
  show ?thesis
  proof (cases "fetch_market_trends env")
    case (Inl e)
    then show ?thesis using assms toks by (simp add: iteration_def)
  next
    case (Inr trends)
    obtain s1 e1 where bp: "buy_phase st trends tokens s = (s1, e1)"
      by (cases "buy_phase st trends tokens s")
    have d1: "distinct (map fst (tokens_table s1))"
      using distinct_buy_phase [OF assms, of st trends tokens] bp by simp
    show ?thesis
      using toks Inr bp d1 sell_phase_keys [of st "sell_envs env" s1]
      by (cases e1) (simp_all add: iteration_def)
  qed
qed

lemma sell_rows_append:
  "sell_rows st envs (xs @ ys) s =
     (case sell_rows st envs xs s of
        (s', Some e) \<Rightarrow> (s', Some e)
      | (s', None) \<Rightarrow> sell_rows st envs ys s')"
  by (induction xs arbitrary: s) (auto split: prod.splits option.splits)

lemma sell_rows_split:
  assumes "sell_rows st envs (pre @ row # post) s = (s', None)"
  obtains s1 s2 where "sell_rows st envs pre s = (s1, None)"
    and "sell_row st envs row s1 = (s2, None)"
    and "sell_rows st envs post s2 = (s', None)"
proof -
  obtain s1 x1 where p: "sell_rows st envs pre s = (s1, x1)"
    by (cases "sell_rows st envs pre s")
  have x1: "x1 = None"
    using assms p by (cases x1) (simp_all add: sell_rows_append)
  obtain s2 x2 where q: "sell_row st envs row s1 = (s2, x2)"
    by (cases "sell_row st envs row s1")
  have x2: "x2 = None"
    using assms p x1 q by (cases x2) (simp_all add: sell_rows_append)
  have "sell_rows st envs post s2 = (s', None)"
    using assms p x1 q x2 by (simp add: sell_rows_append)
  then show ?thesis
    using that p x1 q x2 by simp
qed

lemma select_held_keys:
  "map fst (select_held tbl) = map fst (filter (\<lambda>(k, r). row_holdings r > 0) tbl)"
  by (simp add: select_held_def case_prod_unfold comp_def)

lemma distinct_select_held:
  "distinct (map fst tbl) \<Longrightarrow> distinct (map fst (select_held tbl))"
  by (simp add: select_held_keys distinct_map_filter)

lemma select_held_mem:
  "map_of tbl a = Some r \<Longrightarrow> row_holdings r > 0 \<Longrightarrow>
     (a, row_name r, row_buy_price r, row_holdings r, row_decimals r) \<in> set (select_held tbl)"
  by (force simp: select_held_def dest: map_of_SomeD)

lemma sell_row_self:
  assumes "sell_row st envs (a, nm, bp, h, dec) s = (s', None)"
    and "swap_route (probe_world (envs a)) a SOL_ADDRESS (probe_amount dec) = Inr (Data d)"
    and "int_over_pow10 (get_out_amount d) 9 \<noteq> 0"
    and "holdings_of (tokens_table s) a = Some h0"
  shows "holdings_of (tokens_table s') a =
          (let pm = fl (fl (int_over_pow10 (get_out_amount d) 9 / fl 0.001) / bp) in
           if pm \<ge> PROFIT_MULTIPLIER_MAX st then Some 0
           else if pm \<ge> PROFIT_MULTIPLIER_MIN st
             then Some (fl (h - fl (h * SELL_PERCENTAGE st)))
           else Some h0)"
    and "sells_of a (calls s') =
          (let pm = fl (fl (int_over_pow10 (get_out_amount d) 9 / fl 0.001) / bp) in
           if pm \<ge> PROFIT_MULTIPLIER_MAX st then sells_of a (calls s) @ [h]
           else if pm \<ge> PROFIT_MULTIPLIER_MIN st
             then sells_of a (calls s) @ [fl (h * SELL_PERCENTAGE st)]
           else sells_of a (calls s))"
  using assms
  by (auto simp: Let_def holdings_of_set_holdings sells_of_append TokenState_init_def
      split: if_splits)

lemma sell_phase_banding:
  assumes "distinct (map fst (tokens_table s))"
    and "map_of (tokens_table s) a = Some r"
    and "row_holdings r > 0"
    and "swap_route (probe_world (envs a)) a SOL_ADDRESS (probe_amount (row_decimals r))
           = Inr (Data d)"
    and "int_over_pow10 (get_out_amount d) 9 \<noteq> 0"
    and "sell_phase st envs s = (s', None)"
  shows "(let h = row_holdings r;
              pm = fl (fl (int_over_pow10 (get_out_amount d) 9 / fl 0.001) / row_buy_price r)
          in (PROFIT_MULTIPLIER_MAX st \<le> pm
                \<longrightarrow> holdings_of (tokens_table s') a = Some 0) \<and>
             (PROFIT_MULTIPLIER_MIN st \<le> pm \<and> pm < PROFIT_MULTIPLIER_MAX st
                \<longrightarrow> holdings_of (tokens_table s') a
                      = Some (fl (h - fl (h * SELL_PERCENTAGE st)))) \<and>
             (pm < PROFIT_MULTIPLIER_MIN st \<and>
              PROFIT_MULTIPLIER_MIN st \<le> PROFIT_MULTIPLIER_MAX st
                \<longrightarrow> holdings_of (tokens_table s') a = Some h \<and>
                    sells_of a (calls s') = sells_of a (calls s)))"
proof -
  let ?row = "(a, row_name r, row_buy_price r, row_holdings r, row_decimals r)"
  let ?rows = "select_held (tokens_table s)"
  have "?row \<in> set ?rows"
    using assms(2,3) by (rule select_held_mem)
  then obtain pre post where rows: "?rows = pre @ ?row # post"
    by (auto simp: in_set_conv_decomp)
  have "distinct (map fst ?rows)"
    using assms(1) by (rule distinct_select_held)
  then have npre: "a \<notin> fst ` set pre" and npost: "a \<notin> fst ` set post"
    unfolding rows by auto
  have run: "sell_rows st envs (pre @ ?row # post) s = (s', None)"
    using assms(6) rows by (simp add: sell_phase_def split: prod.splits option.splits)
  obtain s1 s2 where r1: "sell_rows st envs pre s = (s1, None)"
    and r2: "sell_row st envs ?row s1 = (s2, None)"
    and r3: "sell_rows st envs post s2 = (s', None)"
    using run by (rule sell_rows_split)
  have h0: "holdings_of (tokens_table s) a = Some (row_holdings r)"
    using assms(2) by (simp add: holdings_of_def)
  have s1: "holdings_of (tokens_table s1) a = Some (row_holdings r)"
    "sells_of a (calls s1) = sells_of a (calls s)"
    using sell_rows_other [OF r1 npre] h0 by simp_all
  have s3: "holdings_of (tokens_table s') a = holdings_of (tokens_table s2) a"
    "sells_of a (calls s') = sells_of a (calls s2)"
    using sell_rows_other [OF r3 npost] by simp_all
  note own = sell_row_self [OF r2 assms(4) assms(5) s1(1)]
  show ?thesis
    unfolding Let_def using own s1 s3 by (auto simp: Let_def)
qed

text \<open>
  The multiplier is a float. A position bought at 0.1 whose probe is quoted at
  300000 lamports has a multiplier of 3 in exact arithmetic and of
  2.9999999999999996 in floats, below the upper band of 3: half is sold.
\<close>

lemma float_multiplier_below_band:
  "(300000 / 10 ^ 9 / 0.001 / 0.1 :: real) = 3 \<and>
   fl (fl (int_over_pow10 300000 9 / fl 0.001) / fl 0.1) = 3 - 1 / 2 ^ 51 \<and>
   snd (sell_phase default_settings envs_tenth s_tenth) = None \<and>
   holdings_of (tokens_table (fst (sell_phase default_settings envs_tenth s_tenth))) ''X''
     = Some 5 \<and>
   sells_of ''X'' (calls (fst (sell_phase default_settings envs_tenth s_tenth))) = [5]"
  by (simp add: scenario_defs eval_defs)

lemma credential_after_check:
  "fst (validate_token_rugcheck login get key) = (if falsy key then Some login else key)"
  by (simp add: validate_token_rugcheck_def retry_validate_key)

lemma credential_after_startup:
  "fst (startup login key) = (if falsy key then Some login else key)"
  by (simp add: startup_def)

section \<open>The claims\<close>

subsection \<open>Cache\<close>

text \<open>
  Claim C6. After \<^verbatim>\<open>set_cached_data(K, V)\<close> at time \<open>t_set\<close>, a \<^verbatim>\<open>get_cached_data(K)\<close> at a
  time \<open>t_get\<close> with less than \<^verbatim>\<open>CACHE_EXPIRY\<close> elapsed returns \<open>V\<close>; once
  \<^verbatim>\<open>CACHE_EXPIRY\<close> or more has elapsed it returns \<^verbatim>\<open>None\<close> (a miss) while the entry is
  still stored as it was set; and a key that is absent gives a miss. No read changes
  the cache.
\<close>

theorem cache_round_trip:
  "(t_get - t_set < real_of_int (CACHE_EXPIRY st) \<longrightarrow>
      get_cached_data st t_get (set_cached_data t_set c k v) k
        = (v, set_cached_data t_set c k v)) \<and>
   (real_of_int (CACHE_EXPIRY st) \<le> t_get - t_set \<longrightarrow>
      get_cached_data st t_get (set_cached_data t_set c k v) k
        = (None, set_cached_data t_set c k v) \<and>
      set_cached_data t_set c k v k = Some \<lparr> data = v, timestamp = t_set \<rparr>) \<and>
   (c k' = None \<longrightarrow> get_cached_data st t_get c k' = (None, c))"
  by (simp add: get_cached_data_def set_cached_data_def)

theorem cache_round_trip_witness:
  "get_cached_data default_settings 299
       (set_cached_data 0 Map.empty ''trends'' (Some (7::nat))) ''trends''
     = (Some 7, set_cached_data 0 Map.empty ''trends'' (Some 7)) \<and>
   get_cached_data default_settings 300
       (set_cached_data 0 Map.empty ''trends'' (Some (7::nat))) ''trends''
     = (None, set_cached_data 0 Map.empty ''trends'' (Some 7)) \<and>
   set_cached_data 0 Map.empty ''trends'' (Some (7::nat)) ''trends''
     = Some \<lparr> data = Some 7, timestamp = 0 \<rparr> \<and>
   get_cached_data default_settings 300 (Map.empty :: nat cache) ''analytics_T''
     = (None, Map.empty)"
  using cache_round_trip [where t_get = 299 and t_set = 0 and st = default_settings
      and c = "Map.empty :: nat cache" and k = "''trends''" and v = "Some 7"
      and k' = "''analytics_T''"]
    cache_round_trip [where t_get = 300 and t_set = 0 and st = default_settings
      and c = "Map.empty :: nat cache" and k = "''trends''" and v = "Some 7"
      and k' = "''analytics_T''"]
  by (simp add: default_settings_def)

subsection \<open>Risk score\<close>

text \<open>
  Claim C4. For every token state and every setting, the scam-risk score that
  \<^verbatim>\<open>update_scam_risk\<close> stores is the sum of the triggered penalties and nothing else:
  0.3 if sniper activity exceeds 50, 0.2 if insider trades exceed 10, 0.4 if liquidity is
  below half the liquidity threshold, 0.1 if the transaction count is below half the
  transaction-count threshold. It lies between 0 and 1, and no other field changes.
\<close>

theorem scam_risk_additive:
  "update_scam_risk st ts =
     ts\<lparr> scam_risk :=
           (if 50 < sniper_activity ts then 0.3 else 0)
         + (if 10 < insider_trades ts then 0.2 else 0)
         + (if liquidity ts < LIQUIDITY_THRESHOLD st / 2 then 0.4 else 0)
         + (if real_of_int (tx_count ts) < real_of_int (TX_COUNT_THRESHOLD st) / 2
            then 0.1 else 0) \<rparr>
   \<and> 0 \<le> scam_risk (update_scam_risk st ts) \<and> scam_risk (update_scam_risk st ts) \<le> 1"
  by (simp add: update_scam_risk_def risk_factors_def)

theorem scam_risk_additive_witness:
  "scam_risk (update_scam_risk default_settings ts_spec) = 0.3 \<and>
   scam_risk (update_scam_risk default_settings
      (ts_spec\<lparr> insider_trades := 11, liquidity := 249, tx_count := 49 \<rparr>)) = 1"
  using scam_risk_additive [of default_settings ts_spec]
    scam_risk_additive [of default_settings
      "ts_spec\<lparr> insider_trades := 11, liquidity := 249, tx_count := 49 \<rparr>"]
  by (simp add: ts_spec_def an_spec_def update_analytics_def TokenState_init_def
      default_settings_def)

subsection \<open>Buy gates\<close>

text \<open>
  Claim C3. For a candidate token that \<^verbatim>\<open>analyze_token\<close> returns a state for (its
  analytics were valid and the reputation check passed), \<^verbatim>\<open>execute_buy\<close> is run if and
  only if all five gates hold: volume, liquidity and transaction count at least their
  thresholds, trend score (0 when the address is not in the trend mapping) at least
  the minimum, and scam risk strictly below the maximum. When they hold, the step
  ends in the table \<^verbatim>\<open>execute_buy\<close> returns for this token state, the configured buy
  size and the table of before, and the call is logged. When one fails, the table
  and the log are those of before.
\<close>

theorem buy_iff_all_gates:
  assumes "analyze_token st env (address tok)
             (case token_name tok of None \<Rightarrow> ''Unknown'' | Some n \<Rightarrow> n) (API_KEY_RUGCHECK s)
           = (key', Inr (Some ts))"
  shows "buy_step st trends (tok, env) s =
          (if VOLUME_THRESHOLD st \<le> volume ts \<and>
              LIQUIDITY_THRESHOLD st \<le> liquidity ts \<and>
              TX_COUNT_THRESHOLD st \<le> tx_count ts \<and>
              TREND_SCORE_MIN st \<le> (case trends (address tok) of None \<Rightarrow> 0 | Some v \<Rightarrow> v) \<and>
              scam_risk ts < SCAM_RISK_MAX st
           then
             (s\<lparr> API_KEY_RUGCHECK := key',
                 tokens_table :=
                   snd (snd (execute_buy (buy_world env) (store_ok env) (clock env)
                     (ts\<lparr> trend_score :=
                           (case trends (address tok) of None \<Rightarrow> 0 | Some v \<Rightarrow> v) \<rparr>)
                     (BUY_AMOUNT_SOL st) (tokens_table s))),
                 calls := calls s @ [BuyAttempt (address tok)] \<rparr>, None)
           else (s\<lparr> API_KEY_RUGCHECK := key' \<rparr>, None))"
  using assms by (simp add: buy_step_def buy_gates_def Let_def)

theorem buy_iff_all_gates_witness:
  "holdings_of (tokens_table (fst (buy_step default_settings trends_spec (tok_T, env_spec)
      s_empty))) ''T'' = Some 3 \<and>
   calls (fst (buy_step default_settings trends_spec (tok_T, env_spec) s_empty))
     = [BuyAttempt ''T''] \<and>
   buy_step (default_settings\<lparr> SCAM_RISK_MAX := 0.3 \<rparr>) trends_spec (tok_T, env_spec) s_empty
     = (s_empty, None)"
proof -
  have a1: "analyze_token default_settings env_spec (address tok_T)
              (case token_name tok_T of None \<Rightarrow> ''Unknown'' | Some n \<Rightarrow> n)
              (API_KEY_RUGCHECK s_empty)
            = (Some ''key'', Inr (Some (update_scam_risk default_settings ts_spec)))"
    by (simp add: analyze_token_def env_spec_def tok_T_def s_empty_def ts_spec_def
        validate_token_rugcheck_def validate_attempt_def falsy_def upper_def upper_char_def
        eval_nat_numeral)
  have a2: "analyze_token (default_settings\<lparr> SCAM_RISK_MAX := 0.3 \<rparr>) env_spec (address tok_T)
              (case token_name tok_T of None \<Rightarrow> ''Unknown'' | Some n \<Rightarrow> n)
              (API_KEY_RUGCHECK s_empty)
            = (Some ''key'', Inr (Some (update_scam_risk (default_settings\<lparr> SCAM_RISK_MAX := 0.3 \<rparr>)
                 ts_spec)))"
    by (simp add: analyze_token_def env_spec_def tok_T_def s_empty_def ts_spec_def
        validate_token_rugcheck_def validate_attempt_def falsy_def upper_def upper_char_def
        eval_nat_numeral)
  have b1: "holdings_of (tokens_table (fst (buy_step default_settings trends_spec
              (tok_T, env_spec) s_empty))) ''T'' = Some 3 \<and>
            calls (fst (buy_step default_settings trends_spec (tok_T, env_spec) s_empty))
              = [BuyAttempt ''T'']"
    using buy_iff_all_gates [OF a1, of trends_spec]
    by (simp add: scenario_defs eval_defs)
  have b2: "buy_step (default_settings\<lparr> SCAM_RISK_MAX := 0.3 \<rparr>) trends_spec (tok_T, env_spec)
              s_empty = (s_empty, None)"
    using buy_iff_all_gates [OF a2, of trends_spec]
    by (simp add: scenario_defs eval_defs)
  show ?thesis
    using b1 b2 by simp
qed

text \<open>
  Claim C9. For a discovered token whose address is not in the trend mapping, the
  trend score is taken as 0; so when the configured trend-score minimum is greater
  than 0, \<^verbatim>\<open>execute_buy\<close> is not called for it, whatever the analysis returns: the log
  of calls and the table of positions are as before.
\<close>

theorem no_trend_no_buy:
  assumes "trends (address tok) = None" and "0 < TREND_SCORE_MIN st"
  shows "calls (fst (buy_step st trends (tok, env) s)) = calls s \<and>
         tokens_table (fst (buy_step st trends (tok, env) s)) = tokens_table s"
  using assms
  by (simp add: buy_step_def buy_gates_def Let_def split: prod.splits sum.splits option.splits)

theorem no_trend_no_buy_witness:
  "Map.empty (address tok_T) = (None :: real option) \<and> 0 < TREND_SCORE_MIN default_settings \<and>
   calls (fst (buy_step default_settings Map.empty (tok_T, env_spec) s_empty)) = [] \<and>
   tokens_table (fst (buy_step default_settings Map.empty (tok_T, env_spec) s_empty)) = []"
proof -
  have h1: "(Map.empty :: string \<rightharpoonup> real) (address tok_T) = None"
    by simp
  have h2: "0 < TREND_SCORE_MIN default_settings"
    by (simp add: default_settings_def)
  show ?thesis
    using no_trend_no_buy [OF h1 h2, where env = env_spec and s = s_empty] h2
    by (simp add: s_empty_def)
qed

subsection \<open>Buy executor\<close>

text \<open>
  Claim C5. When a buy's transaction is confirmed but the route's output amount is
  zero (reported as 0, or not reported, which the code reads as 0), \<^verbatim>\<open>execute_buy\<close>
  returns \<^verbatim>\<open>False\<close> and neither the token state nor the table of positions changes.
\<close>

theorem buy_zero_output_fails:
  assumes "swap_route w SOL_ADDRESS (token_address ts) (raw_units amount_in_sol 9)
             = Inr (Data d)"
    and "raw_tx d = Some raw"
    and "sign_tx w raw = Inr signed_tx"
    and "submit w signed_tx = Inr (Some tx_hash)"
    and "confirm w tx_hash"
    and "get_out_amount d = 0"
  shows "execute_buy w ok now ts amount_in_sol tbl = (False, ts, tbl)"
  using assms by (simp add: execute_buy_def)

theorem buy_zero_output_fails_witness:
  "confirm w_zero ''hash'' \<and>
   get_out_amount \<lparr> raw_tx = Some ''tx'', out_amount = Some 0 \<rparr> = 0 \<and>
   execute_buy w_zero True ''2024-01-02T00:00:00'' ts_spec 1 [(''T'', row_held)]
     = (False, ts_spec, [(''T'', row_held)])"
proof -
  have h1: "swap_route w_zero SOL_ADDRESS (token_address ts_spec) (raw_units 1 9)
              = Inr (Data \<lparr> raw_tx = Some ''tx'', out_amount = Some 0 \<rparr>)"
    by (simp add: w_zero_def)
  have h2: "raw_tx \<lparr> raw_tx = Some ''tx'', out_amount = Some 0 \<rparr> = Some ''tx''"
    by simp
  have h3: "sign_tx w_zero ''tx'' = Inr ''signed''"
    by (simp add: w_zero_def)
  have h4: "submit w_zero ''signed'' = Inr (Some ''hash'')"
    by (simp add: w_zero_def)
  have h5: "confirm w_zero ''hash''"
    by (simp add: w_zero_def)
  have h6: "get_out_amount \<lparr> raw_tx = Some ''tx'', out_amount = Some 0 \<rparr> = 0"
    by (simp add: get_out_amount_def)
  show ?thesis
    using buy_zero_output_fails [OF h1 h2 h3 h4 h5 h6] h5 h6 by simp
qed

text \<open>
  Claim C10, amended. When a buy succeeds (\<^verbatim>\<open>execute_buy\<close> returns \<^verbatim>\<open>True\<close>) and its write
  to the position store goes through, for a token that already has a row, the row is
  replaced as a whole: it is built from the token state of this trade alone, its
  cost basis is the SOL paid divided by the quantity received and its holdings are
  the quantity received. Nothing of the old row is kept, and the table has exactly
  one row for the address.
\<close>

theorem buy_replaces_row:
  assumes "swap_route w SOL_ADDRESS (token_address ts) (raw_units amount_in_sol 9)
             = Inr (Data d)"
    and "execute_buy w ok now ts amount_in_sol tbl = (True, ts', tbl')"
    and "ok"
    and "map_of tbl (token_address ts) = Some old"
  shows "map_of tbl' (token_address ts) =
           Some \<lparr> row_name = name ts, row_volume = volume ts, row_liquidity = liquidity ts,
                  row_tx_count = tx_count ts, row_trend_score = trend_score ts,
                  row_scam_risk = scam_risk ts,
                  row_buy_price =
                    fl (amount_in_sol / int_over_pow10 (get_out_amount d) (decimals ts)),
                  row_holdings = int_over_pow10 (get_out_amount d) (decimals ts),
                  row_decimals = decimals ts, row_timestamp = now \<rparr>
         \<and> length (filter (\<lambda>x. fst x = token_address ts) tbl') = 1"
  using assms
  by (auto simp: execute_buy_def Let_def save_token_to_db_def update_holdings_def
      map_of_insert_or_replace filter_insert_or_replace
      split: sum.splits route.splits option.splits if_splits)

theorem buy_replaces_row_witness:
  "holdings_of [(''T'', row_held)] ''T'' = Some 10 \<and>
   fst (execute_buy w_ok True ''2024-01-02T00:00:00'' ts_spec 1 [(''T'', row_held)]) \<and>
   holdings_of (snd (snd (execute_buy w_ok True ''2024-01-02T00:00:00'' ts_spec 1
      [(''T'', row_held)]))) ''T'' = Some 3 \<and>
   map_option row_buy_price (map_of (snd (snd (execute_buy w_ok True ''2024-01-02T00:00:00''
      ts_spec 1 [(''T'', row_held)]))) ''T'') = Some (fl (1 / 3))"
proof -
  let ?d = "\<lparr> raw_tx = Some ''tx'', out_amount = Some 3000000 \<rparr>"
  let ?r = "execute_buy w_ok True ''2024-01-02T00:00:00'' ts_spec 1 [(''T'', row_held)]"
  have addr: "token_address ts_spec = ''T''"
    by (simp add: ts_spec_def update_analytics_def TokenState_init_def)
  have h1: "swap_route w_ok SOL_ADDRESS (token_address ts_spec) (raw_units 1 9) = Inr (Data ?d)"
    by (simp add: w_ok_def)
  have dec: "decimals ts_spec = 6"
    by (simp add: ts_spec_def update_analytics_def TokenState_init_def)
  have ok: "fst ?r"
    by (simp add: execute_buy_def w_ok_def get_out_amount_def Let_def dec
        int_over_pow10_examples)
  then have h2: "?r = (True, fst (snd ?r), snd (snd ?r))"
    by (cases ?r) simp
  have h3: "map_of [(''T'', row_held)] (token_address ts_spec) = Some row_held"
    by (simp add: addr)
  show ?thesis
    using buy_replaces_row [OF h1 h2 TrueI h3] ok
    by (simp add: addr dec holdings_of_def row_held_def get_out_amount_def
        int_over_pow10_examples)
qed

text \<open>
  The claim as written fails when the store's write fails: \<^verbatim>\<open>save_token_to_db\<close>
  catches the exception and \<^verbatim>\<open>execute_buy\<close> still returns \<^verbatim>\<open>True\<close>. Here the token has
  a row with holdings 10 bought at 1; the buy is confirmed with an output of 3
  tokens and returns \<^verbatim>\<open>True\<close>; the stored row is the old one.
\<close>

theorem buy_write_fails_counterexample:
  "map_of [(''T'', row_held)] ''T'' = Some row_held \<and>
   fst (execute_buy w_ok False ''2024-01-02T00:00:00'' ts_spec 1 [(''T'', row_held)]) \<and>
   holdings (fst (snd (execute_buy w_ok False ''2024-01-02T00:00:00'' ts_spec 1
      [(''T'', row_held)]))) = 3 \<and>
   snd (snd (execute_buy w_ok False ''2024-01-02T00:00:00'' ts_spec 1 [(''T'', row_held)]))
     = [(''T'', row_held)] \<and>
   holdings_of (snd (snd (execute_buy w_ok False ''2024-01-02T00:00:00'' ts_spec 1
      [(''T'', row_held)]))) ''T'' = Some 10"
  by (simp add: scenario_defs eval_defs)

subsection \<open>Sell phase\<close>

text \<open>
  Claim C8. In the sell phase, when the price probe of a held position returns a
  route whose output amount is zero (reported as 0, or not reported), the position is
  skipped: the step returns the state it was given (same table, same credential, no
  call of \<^verbatim>\<open>execute_sell\<close> logged) and raises no exception.
\<close>

theorem zero_probe_skips:
  assumes "swap_route (probe_world (envs a)) a SOL_ADDRESS (probe_amount dec) = Inr (Data d)"
    and "get_out_amount d = 0"
  shows "sell_row st envs (a, nm, bp, h, dec) s = (s, None)"
  using assms by (simp add: int_over_pow10_def fl_zero)

theorem zero_probe_skips_witness:
  "get_out_amount \<lparr> raw_tx = Some ''tx'', out_amount = Some 0 \<rparr> = 0 \<and>
   sell_row default_settings (\<lambda>a. \<lparr> probe_world = w_zero, sell_world = w_ok \<rparr>)
      (''A'', ''Held'', 1, 10, 6) s_held = (s_held, None)"
proof -
  have h1: "swap_route (probe_world ((\<lambda>a. \<lparr> probe_world = w_zero, sell_world = w_ok \<rparr>) ''A''))
              ''A'' SOL_ADDRESS (probe_amount 6)
            = Inr (Data \<lparr> raw_tx = Some ''tx'', out_amount = Some 0 \<rparr>)"
    by (simp add: w_zero_def)
  have h2: "get_out_amount \<lparr> raw_tx = Some ''tx'', out_amount = Some 0 \<rparr> = 0"
    by (simp add: get_out_amount_def)
  show ?thesis
    using zero_probe_skips [OF h1 h2, where st = default_settings and nm = "''Held''"
        and bp = 1 and h = 10 and s = s_held] h2
    by simp
qed

text \<open>
  Claim C1 says that the stored quantity of a position whose probe succeeds with a
  multiplier at or above the upper band is exactly 0 after a successful sell. The
  code does not keep that when the pass ends before its commit. Position \<^verbatim>\<open>A\<close>
  holds 10 tokens bought at 1; its probe succeeds with a multiplier of 3, the upper
  band; its sell of 10 tokens is confirmed and \<^verbatim>\<open>UPDATE tokens SET holdings = 0\<close> runs on
  the connection. Then the probe of position \<^verbatim>\<open>B\<close> raises: the \<^verbatim>\<open>async with\<close> block is
  left before \<^verbatim>\<open>conn.commit()\<close>, and the stored quantity of \<^verbatim>\<open>A\<close> is still 10. The next
  pass, in which every probe succeeds, sells the 10 tokens of \<^verbatim>\<open>A\<close> again.
\<close>

theorem sell_commit_lost_on_abort:
  "holdings_of (tokens_table s_held) ''A'' = Some 10 \<and>
   swap_route (probe_world (envs_abort ''A'')) ''A'' SOL_ADDRESS (probe_amount 6)
     = Inr (Data \<lparr> raw_tx = None, out_amount = Some 3000000 \<rparr>) \<and>
   PROFIT_MULTIPLIER_MAX default_settings
     \<le> fl (fl (int_over_pow10 3000000 9 / fl 0.001) / 1) \<and>
   execute_sell (sell_world (envs_abort ''A'')) (ts_held ''A'') 10 \<and>
   sells_of ''A'' (calls (fst (sell_phase default_settings envs_abort s_held))) = [10] \<and>
   snd (sell_phase default_settings envs_abort s_held) = Some RetryError \<and>
   holdings_of (tokens_table (fst (sell_phase default_settings envs_abort s_held))) ''A''
     = Some 10 \<and>
   sells_of ''A'' (calls (fst (sell_phase default_settings envs_ok
      (fst (sell_phase default_settings envs_abort s_held))))) = [10, 10]"
  by (simp add: scenario_defs eval_defs)

subsection \<open>Trades and the stored position\<close>

text \<open>
  Claim C2 holds for buys: a buy that returns \<^verbatim>\<open>False\<close> leaves the token state and
  the table as they were, and a buy that returns \<^verbatim>\<open>True\<close> had its transaction
  confirmed with a non-zero output (lemmas \<open>execute_buy_False\<close> and
  \<open>execute_buy_True\<close>). It fails for sells: the loop does not look at what
  \<^verbatim>\<open>execute_sell\<close> returns. Below, no sell trade gets a route, so every
  \<^verbatim>\<open>execute_sell\<close> returns \<^verbatim>\<open>False\<close> and nothing is confirmed on chain; the pass still
  stores a quantity of 0 for \<^verbatim>\<open>A\<close> (multiplier 3) and of 5 for \<^verbatim>\<open>B\<close> (multiplier 2).
\<close>

theorem sell_unconfirmed_still_updates:
  "\<not> execute_sell (sell_world (envs_sell_fails ''A'')) (ts_held ''A'') 10 \<and>
   \<not> execute_sell (sell_world (envs_sell_fails ''B'')) (ts_held ''B'') 5 \<and>
   holdings_of (tokens_table s_held) ''A'' = Some 10 \<and>
   holdings_of (tokens_table s_held) ''B'' = Some 10 \<and>
   snd (sell_phase default_settings envs_sell_fails s_held) = None \<and>
   holdings_of (tokens_table (fst (sell_phase default_settings envs_sell_fails s_held))) ''A''
     = Some 0 \<and>
   holdings_of (tokens_table (fst (sell_phase default_settings envs_sell_fails s_held))) ''B''
     = Some 5"
  by (simp add: scenario_defs eval_defs)

subsection \<open>Credential\<close>

text \<open>
  Claim C7 says that the credential of the reputation service is refreshed on
  demand when a request using it fails. The code fetches a credential only when
  there is none (lemmas \<open>credential_after_check\<close> and \<open>credential_after_startup\<close>),
  although the comment on the global says it can be refreshed. With the credential
  \<^verbatim>\<open>stale\<close>, a login that would return \<^verbatim>\<open>fresh\<close>, and a service that rejects every
  request made with \<^verbatim>\<open>stale\<close> and accepts \<^verbatim>\<open>fresh\<close>: the three runs of a check all use
  \<^verbatim>\<open>stale\<close>, the check ends in \<^verbatim>\<open>RetryError\<close>, the credential is still \<^verbatim>\<open>stale\<close>, and the
  next check fails the same way.
\<close>

theorem stale_credential_never_refreshed:
  "validate_token_rugcheck ''fresh'' rug_rejects_stale (Some ''stale'')
     = (Some ''stale'', Inl RetryError) \<and>
   validate_token_rugcheck ''fresh'' rug_rejects_stale
       (fst (validate_token_rugcheck ''fresh'' rug_rejects_stale (Some ''stale'')))
     = (Some ''stale'', Inl RetryError) \<and>
   validate_token_rugcheck ''fresh'' rug_rejects_stale (Some ''fresh'')
     = (Some ''fresh'', Inr True)"
  by (simp add: validate_token_rugcheck_def validate_attempt_def falsy_def eval_nat_numeral
      rug_rejects_stale_def upper_def upper_char_def)

end
